theory Spec2Isabelle
  imports Complex_Main
begin

section \<open>JavaScript values\<close>

text \<open>
  The numbers that flow through the scrollable are pixel offsets. They are modelled as
  integers (where JavaScript's double arithmetic is exact), together with the two other
  values the code can produce or meet on these paths: \<open>undefined\<close> (an absent
  field) and \<open>NaN\<close> (arithmetic on \<open>undefined\<close>). Negative zero is
  identified with zero.
\<close>

datatype jsval = Undefined | NaN | Num int

text \<open>
  Modelled from the spec: \<open>isDefined\<close> is imported by ui.scrollable.js
  (line 5) from core/utils/type, which is not among the sources. The spec speaks of a
  field that is "absent" and "stays undefined": a value is defined unless it is
  \<open>undefined\<close>.
\<close>

definition isDefined :: "jsval \<Rightarrow> bool" where
  "isDefined v = (v \<noteq> Undefined)"

text \<open>
  Modelled from the spec: \<open>ensureDefined\<close> is imported by ui.scrollable.js
  (line 4) from core/utils/common, which is not among the sources. The spec writes it as
  \<open>target.field ?? current.field\<close>: it keeps a defined value and otherwise
  takes the default.
\<close>

definition ensureDefined :: "jsval \<Rightarrow> jsval \<Rightarrow> jsval" where
  "ensureDefined v defaultValue = (if isDefined v then v else defaultValue)"

text \<open>Unary minus, binary minus and the truthiness test \<open>!v\<close> of JavaScript.\<close>

fun neg :: "jsval \<Rightarrow> jsval" where
  "neg (Num n) = Num (- n)"
| "neg Undefined = NaN"
| "neg NaN = NaN"

fun sub :: "jsval \<Rightarrow> jsval \<Rightarrow> jsval" where
  "sub (Num a) (Num b) = Num (a - b)"
| "sub _ _ = NaN"

fun falsy :: "jsval \<Rightarrow> bool" where
  "falsy (Num n) = (n = 0)"
| "falsy Undefined = True"
| "falsy NaN = True"

section \<open>The scrollable widget (ui.scrollable.js)\<close>

definition VERTICAL :: string where
  "VERTICAL = ''vertical''"

definition HORIZONTAL :: string where
  "HORIZONTAL = ''horizontal''"

text \<open>The object \<open>{left, top}\<close> that \<open>_normalizeLocation\<close> returns
  and the strategy consumes.\<close>

record offset =
  left :: jsval
  top :: jsval

text \<open>The argument of \<open>scrollTo\<close> and \<open>scrollBy\<close>: a plain object
  with the fields \<open>left\<close>, \<open>top\<close>, \<open>x\<close>, \<open>y\<close> (an
  absent field reads \<open>undefined\<close>), or a scalar.\<close>

record plain_location =
  loc_left :: jsval
  loc_top :: jsval
  loc_x :: jsval
  loc_y :: jsval

datatype location = PlainObject plain_location | Scalar jsval

text \<open>The DOM node \<open>this._container().get(0)\<close>, as far as the widget reads it.\<close>

record element =
  scrollWidth :: int
  clientWidth :: int
  scrollHeight :: int
  clientHeight :: int
  scrollLeft :: int

record rtl_config =
  cfg_scrollRight :: int
  cfg_clientWidth :: int
  cfg_windowPixelRatio :: rat
  cfg_skipUpdating :: bool

text \<open>The result of \<open>_getMaxOffset\<close>.\<close>

record max_offset =
  max_left :: int
  max_top :: int

text \<open>The methods of the scroll strategy, as the widget calls them. Every call is
  recorded in the widget's \<open>calls\<close>, in order.\<close>

datatype strategy_call =
  Render | Update | UpdateBounds | Location | ApplyScaleRatio | ScrollBy offset | DisabledChanged

text \<open>
  The collaborators of the widget that are not in ui.scrollable.js are parameters of the
  model: the window (\<open>hasWindow\<close>, \<open>devicePixelRatio\<close>), the container
  node, the scroll strategy \<open>this._strategy\<close> (assumed present, as
  \<open>_renderStrategy\<close> requires), and the widget's own \<open>scrollOffset()\<close>
  and \<open>scrollLeft()\<close>, which the file calls but does not define. They read and
  change a world \<open>'w\<close> (the DOM and the strategy's state).
\<close>

record 'w env =
  hasWindow :: bool
  devicePixelRatio :: "'w \<Rightarrow> rat"
  container :: "'w \<Rightarrow> element"
  strategy_render :: "'w \<Rightarrow> 'w"
  strategy_update :: "'w \<Rightarrow> 'w"
  strategy_updateBounds :: "'w \<Rightarrow> 'w"
  strategy_location :: "'w \<Rightarrow> offset"
  strategy_applyScaleRatio :: "'w \<Rightarrow> offset \<Rightarrow> offset"
  strategy_scrollBy :: "offset \<Rightarrow> 'w \<Rightarrow> 'w"
  strategy_disabledChanged :: "'w \<Rightarrow> 'w"
  scrollOffset :: "'w \<Rightarrow> offset"
  scrollLeft_of :: "'w \<Rightarrow> jsval"

text \<open>The widget: the options the file reads, its fields \<open>_locked\<close>,
  \<open>_rtlConfig\<close> and \<open>_savedScrollOffset\<close>, whether
  \<open>_invalidate\<close> has asked for a new render, the world, and the strategy calls
  made so far.\<close>

record 'w scrollable =
  disabled :: bool
  direction :: string
  rtlEnabled :: bool
  useNative :: bool
  updateManually :: bool
  locked :: bool
  rtlConfig :: rtl_config
  savedScrollOffset :: "offset option"
  invalidated :: bool
  world :: 'w
  calls :: "strategy_call list"

definition init :: "'w scrollable \<Rightarrow> 'w scrollable" where
  "init s = s\<lparr>locked := False\<rparr>"

definition getWindowDevicePixelRatio :: "'w env \<Rightarrow> 'w scrollable \<Rightarrow> rat" where
  "getWindowDevicePixelRatio e s = (if hasWindow e then devicePixelRatio e (world s) else 1)"

definition isHorizontalAndRtlEnabled :: "'w scrollable \<Rightarrow> bool" where
  "isHorizontalAndRtlEnabled s = (rtlEnabled s \<and> direction s \<noteq> VERTICAL)"

definition getMaxOffset :: "'w env \<Rightarrow> 'w scrollable \<Rightarrow> max_offset" where
  "getMaxOffset e s =
     (let el = container e (world s)
      in \<lparr>max_left = scrollWidth el - clientWidth el,
          max_top = scrollHeight el - clientHeight el\<rparr>)"

definition updateBounds :: "'w env \<Rightarrow> 'w scrollable \<Rightarrow> 'w scrollable" where
  "updateBounds e s =
     s\<lparr>world := strategy_updateBounds e (world s), calls := calls s @ [UpdateBounds]\<rparr>"

definition updateRtlConfig :: "'w env \<Rightarrow> 'w scrollable \<Rightarrow> 'w scrollable" where
  "updateRtlConfig e s =
     (if isHorizontalAndRtlEnabled s \<and> \<not> cfg_skipUpdating (rtlConfig s) then
        let el = container e (world s);
            windowPixelRatio = getWindowDevicePixelRatio e s;
            cfg = (if cfg_windowPixelRatio (rtlConfig s) = windowPixelRatio
                      \<and> cfg_clientWidth (rtlConfig s) = clientWidth el
                   then (rtlConfig s)\<lparr>cfg_scrollRight :=
                          max_left (getMaxOffset e s) - scrollLeft el\<rparr>
                   else rtlConfig s)
        in s\<lparr>rtlConfig :=
               cfg\<lparr>cfg_clientWidth := clientWidth el,
                   cfg_windowPixelRatio := windowPixelRatio\<rparr>\<rparr>
      else s)"

definition lock :: "'w scrollable \<Rightarrow> 'w scrollable" where
  "lock s = s\<lparr>locked := True\<rparr>"

definition unlock :: "'w scrollable \<Rightarrow> 'w scrollable" where
  "unlock s = (if \<not> disabled s then s\<lparr>locked := False\<rparr> else s)"

definition isLocked :: "'w scrollable \<Rightarrow> bool" where
  "isLocked s = locked s"

definition renderDisabledState :: "'w scrollable \<Rightarrow> 'w scrollable" where
  "renderDisabledState s = (if disabled s then lock s else unlock s)"

definition renderStrategy :: "'w env \<Rightarrow> 'w scrollable \<Rightarrow> 'w scrollable" where
  "renderStrategy e s =
     s\<lparr>world := strategy_render e (world s), calls := calls s @ [Render]\<rparr>"

text \<open>\<open>update\<close>: the strategy is present, so its \<open>update\<close> is called
  (\<open>_updateAllowedDirection\<close>, run afterwards, is not in the file).\<close>

definition update :: "'w env \<Rightarrow> 'w scrollable \<Rightarrow> 'w scrollable" where
  "update e s = s\<lparr>world := strategy_update e (world s), calls := calls s @ [Update]\<rparr>"

definition updateIfNeed :: "'w env \<Rightarrow> 'w scrollable \<Rightarrow> 'w scrollable" where
  "updateIfNeed e s = (if \<not> updateManually s then update e s else s)"

definition getInactiveProp :: "'w scrollable \<Rightarrow> string option" where
  "getInactiveProp s =
     (if direction s = VERTICAL then Some ''left''
      else if direction s = HORIZONTAL then Some ''top''
      else None)"

definition normalizeLocation :: "'w scrollable \<Rightarrow> location \<Rightarrow> offset" where
  "normalizeLocation s location =
     (case location of
        PlainObject l \<Rightarrow>
          (let l' = ensureDefined (loc_left l) (loc_x l);
               t' = ensureDefined (loc_top l) (loc_y l)
           in \<lparr>left = (if isDefined l' then neg l' else Undefined),
               top = (if isDefined t' then neg t' else Undefined)\<rparr>)
      | Scalar v \<Rightarrow>
          \<lparr>left = (if direction s \<noteq> VERTICAL then neg v else Undefined),
           top = (if direction s \<noteq> HORIZONTAL then neg v else Undefined)\<rparr>)"







definition strategyScrollBy :: "'w env \<Rightarrow> offset \<Rightarrow> 'w scrollable \<Rightarrow> 'w scrollable" where
  "strategyScrollBy e distance s =
     s\<lparr>world := strategy_scrollBy e distance (world s), calls := calls s @ [ScrollBy distance]\<rparr>"

definition scrollBy :: "'w env \<Rightarrow> location \<Rightarrow> 'w scrollable \<Rightarrow> 'w scrollable" where
  "scrollBy e distance s =
     (let d = normalizeLocation s distance
      in if falsy (top d) \<and> falsy (left d) then s
         else updateRtlConfig e (strategyScrollBy e d (updateIfNeed e s)))"

text \<open>The first half of \<open>scrollTo\<close>, up to the test of the distance: the
  normalised target, the update, the strategy's location, the scale ratio when the
  scrolling is simulated, and the distance. It returns the distance and the widget.\<close>

definition scrollToDistance ::
  "'w env \<Rightarrow> location \<Rightarrow> 'w scrollable \<Rightarrow> offset \<times> 'w scrollable" where
  "scrollToDistance e targetLocation s =
     (let t0 = normalizeLocation s targetLocation;
          s1 = updateIfNeed e s;
          loc0 = strategy_location e (world s1);
          s2 = s1\<lparr>calls := calls s1 @ [Location]\<rparr>;
          t = (if \<not> useNative s2 then strategy_applyScaleRatio e (world s2) t0 else t0);
          loc = (if \<not> useNative s2 then strategy_applyScaleRatio e (world s2) loc0 else loc0);
          s3 = (if \<not> useNative s2
                then s2\<lparr>calls := calls s2 @ [ApplyScaleRatio, ApplyScaleRatio]\<rparr> else s2);
          distance = normalizeLocation s3
            (PlainObject \<lparr>loc_left = sub (left loc) (ensureDefined (left t) (left loc)),
                          loc_top = sub (top loc) (ensureDefined (top t) (top loc)),
                          loc_x = Undefined, loc_y = Undefined\<rparr>)
      in (distance, s3))"

definition scrollTo :: "'w env \<Rightarrow> location \<Rightarrow> 'w scrollable \<Rightarrow> 'w scrollable" where
  "scrollTo e targetLocation s =
     (let (distance, s3) = scrollToDistance e targetLocation s
      in if falsy (top distance) \<and> falsy (left distance) then s3
         else updateRtlConfig e (strategyScrollBy e distance s3))"

definition resetInactiveDirection :: "'w env \<Rightarrow> 'w scrollable \<Rightarrow> 'w scrollable" where
  "resetInactiveDirection e s =
     (case getInactiveProp s of
        None \<Rightarrow> s
      | Some inactiveProp \<Rightarrow>
          if \<not> hasWindow e then s
          else
            (let so = scrollOffset e (world s);
                 so' = (if inactiveProp = ''left'' then so\<lparr>left := Num 0\<rparr>
                        else so\<lparr>top := Num 0\<rparr>)
             in scrollTo e
                  (PlainObject \<lparr>loc_left = left so', loc_top = top so',
                                loc_x = Undefined, loc_y = Undefined\<rparr>) s))"

text \<open>\<open>_updateRtlPosition\<close>; the callbacks handed to \<open>deferUpdate\<close>
  and \<open>deferRender\<close> run in place.\<close>

definition updateRtlPosition :: "'w env \<Rightarrow> 'w scrollable \<Rightarrow> 'w scrollable" where
  "updateRtlPosition e s =
     (let s1 = updateBounds e s
      in if isHorizontalAndRtlEnabled s1 then
           (let sl0 = max_left (getMaxOffset e s1) - cfg_scrollRight (rtlConfig s1);
                sl = (if sl0 \<le> 0 then 0 else sl0);
                s2 = (if sl0 \<le> 0
                      then s1\<lparr>rtlConfig :=
                             (rtlConfig s1)\<lparr>cfg_scrollRight := max_left (getMaxOffset e s1)\<rparr>\<rparr>
                      else s1)
            in if scrollLeft_of e (world s2) \<noteq> Num sl then
                 (let s3 = s2\<lparr>rtlConfig := (rtlConfig s2)\<lparr>cfg_skipUpdating := True\<rparr>\<rparr>;
                      s4 = scrollTo e
                             (PlainObject \<lparr>loc_left = Num sl, loc_top = Undefined,
                                           loc_x = Undefined, loc_y = Undefined\<rparr>) s3
                  in s4\<lparr>rtlConfig := (rtlConfig s4)\<lparr>cfg_skipUpdating := False\<rparr>\<rparr>)
               else s2)
         else s1)"

definition render :: "'w env \<Rightarrow> 'w scrollable \<Rightarrow> 'w scrollable" where
  "render e s =
     (let s1 = renderStrategy e s;
          s2 = renderDisabledState s1;
          s3 = update e s2;
          s4 = s3\<lparr>rtlConfig :=
                 \<lparr>cfg_scrollRight = 0,
                  cfg_clientWidth = clientWidth (container e (world s3)),
                  cfg_windowPixelRatio = getWindowDevicePixelRatio e s3,
                  cfg_skipUpdating = False\<rparr>\<rparr>
      in updateRtlPosition e s4)"

definition dimensionChanged :: "'w env \<Rightarrow> 'w scrollable \<Rightarrow> 'w scrollable" where
  "dimensionChanged e s = updateRtlPosition e (update e s)"

definition visibilityChanged :: "'w env \<Rightarrow> bool \<Rightarrow> 'w scrollable \<Rightarrow> 'w scrollable" where
  "visibilityChanged e visible s =
     (if visible then
        (let s1 = updateRtlPosition e (update e s);
             s2 = (case savedScrollOffset s1 of
                     None \<Rightarrow> s1
                   | Some so \<Rightarrow>
                       scrollTo e (PlainObject \<lparr>loc_left = left so, loc_top = top so,
                                                loc_x = Undefined, loc_y = Undefined\<rparr>) s1)
         in s2\<lparr>savedScrollOffset := None\<rparr>)
      else s\<lparr>savedScrollOffset := Some (scrollOffset e (world s))\<rparr>)"

text \<open>\<open>_invalidate\<close> belongs to the base component: it asks for a new render.\<close>

definition invalidate :: "'w scrollable \<Rightarrow> 'w scrollable" where
  "invalidate s = s\<lparr>invalidated := True\<rparr>"

definition strategyDisabledChanged :: "'w env \<Rightarrow> 'w scrollable \<Rightarrow> 'w scrollable" where
  "strategyDisabledChanged e s =
     s\<lparr>world := strategy_disabledChanged e (world s), calls := calls s @ [DisabledChanged]\<rparr>"

text \<open>\<open>_optionChanged\<close>, by the name of the option. The action options only
  rebuild the actions, the default case only calls the base class, and
  \<open>_setUseSimulatedScrollbar\<close> only writes the option
  \<open>useSimulatedScrollbar\<close>; none of them touches the state modelled here.\<close>

definition optionChanged :: "'w env \<Rightarrow> string \<Rightarrow> 'w scrollable \<Rightarrow> 'w scrollable" where
  "optionChanged e name s =
     (if name \<in> set [''onStart'', ''onEnd'', ''onStop'', ''onUpdated'', ''onScroll'', ''onBounce'']
      then s
      else if name = ''direction'' then invalidate (resetInactiveDirection e s)
      else if name = ''useNative'' then invalidate s
      else if name \<in> set [''inertiaEnabled'', ''scrollByContent'', ''scrollByThumb'',
                            ''bounceEnabled'', ''useKeyboard'', ''showScrollbar'',
                            ''useSimulatedScrollbar'', ''pushBackValue'']
      then invalidate s
      else if name = ''disabled'' then strategyDisabledChanged e (renderDisabledState s)
      else if name = ''updateManually'' then s
      else if name = ''width'' then updateRtlPosition e s
      else s)"

text \<open>
  Modelled from the spec: the option setter belongs to the base component
  (core/dom_component, not among the sources). Section 9 of the spec describes the
  "option-change dispatch via string-keyed switch": the new value is stored, then
  \<open>_optionChanged\<close> runs with the option's name. Only the options that
  ui.scrollable.js reads are stored.
\<close>

datatype option_value = BoolValue bool | StringValue string

definition storeOption :: "string \<Rightarrow> option_value \<Rightarrow> 'w scrollable \<Rightarrow> 'w scrollable" where
  "storeOption name v s =
     (case v of
        BoolValue b \<Rightarrow>
          if name = ''disabled'' then s\<lparr>disabled := b\<rparr>
          else if name = ''rtlEnabled'' then s\<lparr>rtlEnabled := b\<rparr>
          else if name = ''useNative'' then s\<lparr>useNative := b\<rparr>
          else if name = ''updateManually'' then s\<lparr>updateManually := b\<rparr>
          else s
      | StringValue d \<Rightarrow> if name = ''direction'' then s\<lparr>direction := d\<rparr> else s)"

text \<open>Modelled from the spec: the option setter of the base component, missing
  from the sources, as described above.\<close>

definition option_set ::
  "'w env \<Rightarrow> string \<Rightarrow> option_value \<Rightarrow> 'w scrollable \<Rightarrow> 'w scrollable" where
  "option_set e name v s = optionChanged e name (storeOption name v s)"

text \<open>What can happen to a rendered widget: an option is set, a caller locks or
  unlocks it, it is scrolled, its dimensions or its visibility change, or it is rendered
  again.\<close>

datatype event =
  E_option string option_value
| E_lock
| E_unlock
| E_scrollBy location
| E_scrollTo location
| E_dimensionChanged
| E_visibilityChanged bool
| E_render

fun step :: "'w env \<Rightarrow> event \<Rightarrow> 'w scrollable \<Rightarrow> 'w scrollable" where
  "step e (E_option name v) s = option_set e name v s"
| "step e E_lock s = lock s"
| "step e E_unlock s = unlock s"
| "step e (E_scrollBy d) s = scrollBy e d s"
| "step e (E_scrollTo t) s = scrollTo e t s"
| "step e E_dimensionChanged s = dimensionChanged e s"
| "step e (E_visibilityChanged visible) s = visibilityChanged e visible s"
| "step e E_render s = render e s"

fun run :: "'w env \<Rightarrow> event list \<Rightarrow> 'w scrollable \<Rightarrow> 'w scrollable" where
  "run e [] s = s"
| "run e (ev # evs) s = run e evs (step e ev s)"

section \<open>Canvas resolution (setCanvas of the visualisation base widget)\<close>

record canvas =
  c_width :: int
  c_height :: int
  c_left :: int
  c_right :: int
  c_top :: int
  c_bottom :: int

text \<open>The options \<open>size\<close> and \<open>margin\<close>; an absent field is
  \<open>None\<close> (an absent \<open>size\<close> or \<open>margin\<close> has no field).\<close>

record size =
  s_width :: "int option"
  s_height :: "int option"

record margin =
  m_left :: "int option"
  m_top :: "int option"
  m_right :: "int option"
  m_bottom :: "int option"

text \<open>The computed style of the container, in pixels, as the tests mock it
  (base_widget.test.tsx, lines 185-192).\<close>

record computed_style =
  cs_width :: int
  cs_paddingLeft :: int
  cs_paddingRight :: int
  cs_height :: int
  cs_paddingTop :: int
  cs_paddingBottom :: int

text \<open>\<open>DEFAULT_CANVAS\<close> of base_widget.test.tsx (lines 16-18).\<close>

definition DEFAULT_CANVAS :: canvas where
  "DEFAULT_CANVAS =
     \<lparr>c_width = 0, c_height = 0, c_left = 0, c_right = 0, c_top = 0, c_bottom = 0\<rparr>"

text \<open>
  \<open>setCanvas\<close> of BaseWidget (base_widget.tsx) is not among the sources, only its
  tests are. It is modelled from section 4.1 of the spec,
  \<open>resolve(size, containerMeasuredSize, margin, defaultCanvas)\<close>, one definition
  per step, and checked against the eight tests of base_widget.test.tsx below.
\<close>

text \<open>Modelled from the spec: the measured content box of the container, missing from
  the sources, is the "outer size minus padding on both sides of that axis"; a missing
  measurement counts as 0 ("no valid measurement").\<close>

definition getElementWidth :: "computed_style option \<Rightarrow> int" where
  "getElementWidth style =
     (case style of None \<Rightarrow> 0
      | Some cs \<Rightarrow> cs_width cs - cs_paddingLeft cs - cs_paddingRight cs)"

text \<open>Modelled from the spec: the same for the height, missing from the sources.\<close>

definition getElementHeight :: "computed_style option \<Rightarrow> int" where
  "getElementHeight style =
     (case style of None \<Rightarrow> 0
      | Some cs \<Rightarrow> cs_height cs - cs_paddingTop cs - cs_paddingBottom cs)"

text \<open>Modelled from the spec: step 1 of \<open>setCanvas\<close>, missing from the sources.
  Per axis: the explicit size "if present and non-negative", else the measured dimension
  "if positive", else the default canvas' dimension.\<close>

definition pickDimension :: "int option \<Rightarrow> int \<Rightarrow> int \<Rightarrow> int" where
  "pickDimension explicit measured dflt =
     (case explicit of
        Some v \<Rightarrow> if 0 \<le> v then v else if 0 < measured then measured else dflt
      | None \<Rightarrow> if 0 < measured then measured else dflt)"

text \<open>Modelled from the spec: step 3 of \<open>setCanvas\<close>, missing from the sources.
  Per inset: the "explicit margin value if present, else the corresponding defaultCanvas
  inset".\<close>

definition pickInset :: "int option \<Rightarrow> int \<Rightarrow> int" where
  "pickInset explicit dflt = (case explicit of Some v \<Rightarrow> v | None \<Rightarrow> dflt)"

text \<open>Modelled from the spec: a field of \<open>size\<close> that is present and negative
  ("negative means invalid"), for step 2 of \<open>setCanvas\<close>, missing from the
  sources.\<close>

definition isNegative :: "int option \<Rightarrow> bool" where
  "isNegative explicit = (case explicit of Some v \<Rightarrow> v < 0 | None \<Rightarrow> False)"

text \<open>Modelled from the spec: the default canvas of \<open>setCanvas\<close>, missing from
  the sources; an absent one is the all-zero canvas ("else 0" in step 3, "an all-zero
  canvas if no default" in the failure semantics).\<close>

definition defaultCanvasOf :: "canvas option \<Rightarrow> canvas" where
  "defaultCanvasOf defaultCanvas =
     (case defaultCanvas of None \<Rightarrow> DEFAULT_CANVAS | Some c \<Rightarrow> c)"

text \<open>Modelled from the spec: the candidate set of \<open>setCanvas\<close> (steps 1 and 3),
  missing from the sources.\<close>

definition candidate ::
  "size \<Rightarrow> computed_style option \<Rightarrow> margin \<Rightarrow> canvas option \<Rightarrow> canvas" where
  "candidate sz style mg defaultCanvas =
     (let dc = defaultCanvasOf defaultCanvas
      in \<lparr>c_width = pickDimension (s_width sz) (getElementWidth style) (c_width dc),
          c_height = pickDimension (s_height sz) (getElementHeight style) (c_height dc),
          c_left = pickInset (m_left mg) (c_left dc),
          c_right = pickInset (m_right mg) (c_right dc),
          c_top = pickInset (m_top mg) (c_top dc),
          c_bottom = pickInset (m_bottom mg) (c_bottom dc)\<rparr>)"

text \<open>
  Modelled from the spec: the validity check of \<open>setCanvas\<close> (steps 2 and 4),
  missing from the sources. Step 2: the check "applies per full candidate set"; a
  negative field of \<open>size\<close> or a negative candidate dimension makes the set invalid
  ("For all size with a negative field, resolve returns defaultCanvas verbatim",
  section 8). Step 4: insets that leave no space on an axis make it invalid as well.
  The spec names insets that "sum to more than the resolved dimension"; the repository's
  test "should get default canvas from props (if any side is negative)"
  (base_widget.test.tsx, lines 300-329) expects the default canvas for insets that sum
  to exactly the dimension (200 + 400 = 600 and 300 + 100 = 400), so the space left has
  to be positive.
\<close>

definition invalidCandidate :: "size \<Rightarrow> canvas \<Rightarrow> bool" where
  "invalidCandidate sz c =
     (isNegative (s_width sz) \<or> isNegative (s_height sz)
      \<or> c_width c < 0 \<or> c_height c < 0
      \<or> c_width c - c_left c - c_right c \<le> 0
      \<or> c_height c - c_top c - c_bottom c \<le> 0)"

text \<open>Modelled from the spec: \<open>setCanvas\<close> of BaseWidget, missing from the
  sources. An invalid candidate set "falls back to defaultCanvas verbatim, ignoring
  margin"; a valid one is the result (step 5).\<close>

definition setCanvas ::
  "size \<Rightarrow> computed_style option \<Rightarrow> margin \<Rightarrow> canvas option \<Rightarrow> canvas" where
  "setCanvas sz style mg defaultCanvas =
     (let c = candidate sz style mg defaultCanvas
      in if invalidCandidate sz c then defaultCanvasOf defaultCanvas else c)"



section \<open>Concrete widgets and inputs\<close>

definition widget0 :: "unit scrollable" where
  "widget0 =
     \<lparr>disabled = False, direction = ''both'', rtlEnabled = False, useNative = True,
      updateManually = False, locked = False,
      rtlConfig = \<lparr>cfg_scrollRight = 0, cfg_clientWidth = 0, cfg_windowPixelRatio = 1,
                   cfg_skipUpdating = False\<rparr>,
      savedScrollOffset = None, invalidated = False, world = (), calls = []\<rparr>"

text \<open>
  A page to run the widget on: the strategy's location (the negated scroll offset), the
  container node and the window's pixel ratio. Its strategy moves by the distance it is
  asked to scroll by; \<open>scrollOffset()\<close> and \<open>scrollLeft()\<close> are the
  negated location; the scale ratio is 1.
\<close>

record page =
  at_left :: int
  at_top :: int
  node :: element
  pixelRatio :: rat

fun amount :: "jsval \<Rightarrow> int" where
  "amount (Num n) = n"
| "amount Undefined = 0"
| "amount NaN = 0"

definition simpleEnv :: "bool \<Rightarrow> page env" where
  "simpleEnv win =
     \<lparr>hasWindow = win,
      devicePixelRatio = pixelRatio,
      container = (\<lambda>w. (node w)\<lparr>scrollLeft := - at_left w\<rparr>),
      strategy_render = (\<lambda>w. w),
      strategy_update = (\<lambda>w. w),
      strategy_updateBounds = (\<lambda>w. w),
      strategy_location = (\<lambda>w. \<lparr>left = Num (at_left w), top = Num (at_top w)\<rparr>),
      strategy_applyScaleRatio = (\<lambda>w d. d),
      strategy_scrollBy =
        (\<lambda>d w. w\<lparr>at_left := at_left w + amount (left d), at_top := at_top w + amount (top d)\<rparr>),
      strategy_disabledChanged = (\<lambda>w. w),
      scrollOffset = (\<lambda>w. \<lparr>left = Num (- at_left w), top = Num (- at_top w)\<rparr>),
      scrollLeft_of = (\<lambda>w. Num (- at_left w))\<rparr>"

text \<open>A page scrolled to the offset (50, 70), and a widget on it.\<close>

definition page0 :: page where
  "page0 =
     \<lparr>at_left = - 50, at_top = - 70,
      node = \<lparr>scrollWidth = 1000, clientWidth = 400, scrollHeight = 2000, clientHeight = 300,
              scrollLeft = 50\<rparr>,
      pixelRatio = 1\<rparr>"

definition widget1 :: "page scrollable" where
  "widget1 =
     \<lparr>disabled = False, direction = ''both'', rtlEnabled = False, useNative = True,
      updateManually = False, locked = False,
      rtlConfig = \<lparr>cfg_scrollRight = 0, cfg_clientWidth = 400, cfg_windowPixelRatio = 1,
                   cfg_skipUpdating = False\<rparr>,
      savedScrollOffset = None, invalidated = False, world = page0, calls = []\<rparr>"

text \<open>The same widget in right-to-left mode, 300 pixels from the right edge; and
  after its container has grown from 400 to 900 pixels.\<close>

definition rtlWidget :: "page scrollable" where
  "rtlWidget =
     widget1\<lparr>rtlEnabled := True,
       rtlConfig := \<lparr>cfg_scrollRight = 300, cfg_clientWidth = 400, cfg_windowPixelRatio = 1,
                     cfg_skipUpdating = False\<rparr>\<rparr>"

definition resizedRtlWidget :: "page scrollable" where
  "resizedRtlWidget =
     rtlWidget\<lparr>world := page0\<lparr>node := (node page0)\<lparr>clientWidth := 900\<rparr>\<rparr>\<rparr>"

text \<open>A disabled widget, and a sequence of events for it.\<close>

definition disabledWidget :: "page scrollable" where
  "disabledWidget = widget1\<lparr>disabled := True\<rparr>"

definition sampleEvents :: "event list" where
  "sampleEvents =
     [E_unlock,
      E_scrollBy (Scalar (Num 10)),
      E_option ''direction'' (StringValue ''vertical''),
      E_unlock,
      E_visibilityChanged False,
      E_dimensionChanged,
      E_visibilityChanged True]"

text \<open>The values of the tests of \<open>setCanvas\<close> (base_widget.test.tsx, lines 166-330).\<close>

definition noSize :: size where
  "noSize = \<lparr>s_width = None, s_height = None\<rparr>"

definition noMargin :: margin where
  "noMargin = \<lparr>m_left = None, m_top = None, m_right = None, m_bottom = None\<rparr>"

definition testCanvas :: canvas where
  "testCanvas =
     \<lparr>c_width = 500, c_height = 300, c_left = 10, c_right = 20, c_top = 30, c_bottom = 40\<rparr>"

definition style400x300 :: computed_style where
  "style400x300 =
     \<lparr>cs_width = 400, cs_paddingLeft = 0, cs_paddingRight = 0,
      cs_height = 300, cs_paddingTop = 0, cs_paddingBottom = 0\<rparr>"

section \<open>The tests of setCanvas hold in the model\<close>

lemmas setCanvas_defs =
  setCanvas_def candidate_def invalidCandidate_def pickDimension_def pickInset_def
  isNegative_def defaultCanvasOf_def getElementWidth_def getElementHeight_def
  DEFAULT_CANVAS_def

lemma test_empty_canvas_by_default:
  "setCanvas noSize None noMargin None = DEFAULT_CANVAS"
  by (simp add: setCanvas_defs noSize_def noMargin_def)

lemma test_size_from_props:
  "c_width (setCanvas \<lparr>s_width = Some 600, s_height = Some 400\<rparr> None noMargin None) = 600
   \<and> c_height (setCanvas \<lparr>s_width = Some 600, s_height = Some 400\<rparr> None noMargin None) = 400"
  by (simp add: setCanvas_defs noMargin_def)

lemma test_size_from_container:
  "c_width (setCanvas noSize
      (Some \<lparr>cs_width = 400, cs_paddingLeft = 10, cs_paddingRight = 10,
             cs_height = 300, cs_paddingTop = 10, cs_paddingBottom = 10\<rparr>) noMargin None) = 380
   \<and> c_height (setCanvas noSize
      (Some \<lparr>cs_width = 400, cs_paddingLeft = 10, cs_paddingRight = 10,
             cs_height = 300, cs_paddingTop = 10, cs_paddingBottom = 10\<rparr>) noMargin None) = 280"
  by (simp add: setCanvas_defs noSize_def noMargin_def)

lemma test_default_canvas_from_props:
  "setCanvas noSize
     (Some \<lparr>cs_width = 0, cs_paddingLeft = 0, cs_paddingRight = 0,
            cs_height = 0, cs_paddingTop = 0, cs_paddingBottom = 0\<rparr>) noMargin (Some testCanvas)
   = testCanvas"
  by (simp add: setCanvas_defs noSize_def noMargin_def testCanvas_def)

lemma test_merged_size_and_container:
  "c_width (setCanvas \<lparr>s_width = Some 600, s_height = None\<rparr> (Some style400x300) noMargin None) = 600
   \<and> c_height (setCanvas \<lparr>s_width = Some 600, s_height = None\<rparr> (Some style400x300) noMargin None) = 300"
  by (simp add: setCanvas_defs noMargin_def style400x300_def)

lemma test_merged_size_margin_default:
  "setCanvas \<lparr>s_width = Some 600, s_height = None\<rparr> None
     \<lparr>m_left = Some 20, m_top = Some 40, m_right = None, m_bottom = None\<rparr> (Some testCanvas)
   = \<lparr>c_width = 600, c_height = 300, c_left = 20, c_right = 20, c_top = 40, c_bottom = 40\<rparr>"
  by (simp add: setCanvas_defs testCanvas_def)

lemma test_size_not_valid:
  "setCanvas \<lparr>s_width = Some (- 600), s_height = Some (- 400)\<rparr> None noMargin
     (Some (DEFAULT_CANVAS\<lparr>c_width := 500, c_height := 300\<rparr>))
   = DEFAULT_CANVAS\<lparr>c_width := 500, c_height := 300\<rparr>"
  by (simp add: setCanvas_defs noMargin_def)

lemma test_any_side_negative:
  "setCanvas \<lparr>s_width = Some 600, s_height = Some 400\<rparr> None
     \<lparr>m_left = Some 200, m_top = Some 300, m_right = Some 400, m_bottom = Some 100\<rparr>
     (Some testCanvas)
   = testCanvas"
  by (simp add: setCanvas_defs testCanvas_def)

section \<open>Normalising a scroll location\<close>

text \<open>
  C4. \<open>_normalizeLocation\<close>, for every location, direction and RTL flag (the
  widget \<open>s\<close> is arbitrary). For a plain object, \<open>left\<close> is the negation
  of \<open>location.left\<close>, or of \<open>location.x\<close> when \<open>left\<close> is absent,
  and \<open>top\<close> the negation of \<open>location.top\<close>, or of \<open>location.y\<close>;
  a field absent in both spellings stays \<open>undefined\<close>. For a scalar \<open>v\<close>,
  \<open>-v\<close> goes to the axes the direction scrolls: \<open>left\<close> unless the
  direction is vertical, \<open>top\<close> unless it is horizontal; so a horizontal direction
  leaves \<open>top\<close> undefined and a vertical one leaves \<open>left\<close> undefined.
\<close>

theorem normalizeLocation_spec:
  "normalizeLocation s (PlainObject l) =
     \<lparr>left = (if loc_left l \<noteq> Undefined then neg (loc_left l)
              else if loc_x l \<noteq> Undefined then neg (loc_x l) else Undefined),
      top = (if loc_top l \<noteq> Undefined then neg (loc_top l)
             else if loc_y l \<noteq> Undefined then neg (loc_y l) else Undefined)\<rparr>
   \<and> normalizeLocation s (Scalar v) =
     \<lparr>left = (if direction s = VERTICAL then Undefined else neg v),
      top = (if direction s = HORIZONTAL then Undefined else neg v)\<rparr>
   \<and> neg (Num n) = Num (- n)"
  by (simp add: normalizeLocation_def ensureDefined_def isDefined_def Let_def)

theorem normalizeLocation_spec_witness:
  "normalizeLocation (widget0\<lparr>direction := ''horizontal''\<rparr>) (Scalar (Num 5))
     = \<lparr>left = Num (- 5), top = Undefined\<rparr>
   \<and> normalizeLocation (widget0\<lparr>direction := ''vertical''\<rparr>) (Scalar (Num 5))
     = \<lparr>left = Undefined, top = Num (- 5)\<rparr>
   \<and> normalizeLocation widget0
       (PlainObject \<lparr>loc_left = Num 3, loc_top = Num 4, loc_x = Undefined, loc_y = Undefined\<rparr>)
     = \<lparr>left = Num (- 3), top = Num (- 4)\<rparr>
   \<and> normalizeLocation widget0
       (PlainObject \<lparr>loc_left = Undefined, loc_top = Undefined, loc_x = Num 3, loc_y = Num 4\<rparr>)
     = \<lparr>left = Num (- 3), top = Num (- 4)\<rparr>
   \<and> normalizeLocation widget0
       (PlainObject \<lparr>loc_left = Num 3, loc_top = Undefined, loc_x = Num 7, loc_y = Undefined\<rparr>)
     = \<lparr>left = Num (- 3), top = Undefined\<rparr>"
  using normalizeLocation_spec [of "widget0\<lparr>direction := ''horizontal''\<rparr>" _ "Num 5"]
    normalizeLocation_spec [of "widget0\<lparr>direction := ''vertical''\<rparr>" _ "Num 5"]
    normalizeLocation_spec [of widget0
      "\<lparr>loc_left = Num 3, loc_top = Num 4, loc_x = Undefined, loc_y = Undefined\<rparr>"]
    normalizeLocation_spec [of widget0
      "\<lparr>loc_left = Undefined, loc_top = Undefined, loc_x = Num 3, loc_y = Num 4\<rparr>"]
    normalizeLocation_spec [of widget0
      "\<lparr>loc_left = Num 3, loc_top = Undefined, loc_x = Num 7, loc_y = Undefined\<rparr>"]
  by (simp add: VERTICAL_def HORIZONTAL_def)

section \<open>Resolving the canvas\<close>

text \<open>
  C1, as amended. The candidate set is valid when no field of \<open>size\<close> is
  negative, no candidate dimension is negative and the insets leave space on both axes.
  For a valid candidate set, width and height are settled per axis: the explicit size if
  present (it is then non-negative), otherwise the container's content box (its size
  minus the padding on both sides of the axis) if positive, otherwise the default
  canvas' dimension; so an explicit width with no explicit height gives the explicit
  width and the measured height. For an invalid candidate set the result is the default
  canvas verbatim, whatever the explicit size says.
\<close>

theorem setCanvas_precedence:
  "(\<not> invalidCandidate sz (candidate sz style mg defaultCanvas) \<longrightarrow>
      c_width (setCanvas sz style mg defaultCanvas) =
        (case s_width sz of
           Some v \<Rightarrow> v
         | None \<Rightarrow> if 0 < getElementWidth style then getElementWidth style
                   else c_width (defaultCanvasOf defaultCanvas))
      \<and> c_height (setCanvas sz style mg defaultCanvas) =
        (case s_height sz of
           Some v \<Rightarrow> v
         | None \<Rightarrow> if 0 < getElementHeight style then getElementHeight style
                   else c_height (defaultCanvasOf defaultCanvas))
      \<and> (\<forall>v. s_width sz = Some v \<or> s_height sz = Some v \<longrightarrow> 0 \<le> v))
   \<and> (invalidCandidate sz (candidate sz style mg defaultCanvas) \<longrightarrow>
      setCanvas sz style mg defaultCanvas = defaultCanvasOf defaultCanvas)"
  by (auto simp add: setCanvas_def candidate_def invalidCandidate_def pickDimension_def
      isNegative_def Let_def split: option.splits)

theorem setCanvas_precedence_witness:
  "\<not> invalidCandidate \<lparr>s_width = Some 600, s_height = None\<rparr>
       (candidate \<lparr>s_width = Some 600, s_height = None\<rparr> (Some style400x300) noMargin None)
   \<and> c_width (setCanvas \<lparr>s_width = Some 600, s_height = None\<rparr> (Some style400x300) noMargin None) = 600
   \<and> c_height (setCanvas \<lparr>s_width = Some 600, s_height = None\<rparr> (Some style400x300) noMargin None) = 300
   \<and> invalidCandidate \<lparr>s_width = Some 600, s_height = Some 400\<rparr>
       (candidate \<lparr>s_width = Some 600, s_height = Some 400\<rparr> None
          \<lparr>m_left = Some 200, m_top = Some 300, m_right = Some 400, m_bottom = Some 100\<rparr>
          (Some testCanvas))
   \<and> setCanvas \<lparr>s_width = Some 600, s_height = Some 400\<rparr> None
          \<lparr>m_left = Some 200, m_top = Some 300, m_right = Some 400, m_bottom = Some 100\<rparr>
          (Some testCanvas) = testCanvas"
proof -
  have valid: "\<not> invalidCandidate \<lparr>s_width = Some 600, s_height = None\<rparr>
       (candidate \<lparr>s_width = Some 600, s_height = None\<rparr> (Some style400x300) noMargin None)"
    by (simp add: setCanvas_defs noMargin_def style400x300_def)
  have invalid: "invalidCandidate \<lparr>s_width = Some 600, s_height = Some 400\<rparr>
       (candidate \<lparr>s_width = Some 600, s_height = Some 400\<rparr> None
          \<lparr>m_left = Some 200, m_top = Some 300, m_right = Some 400, m_bottom = Some 100\<rparr>
          (Some testCanvas))"
    by (simp add: setCanvas_defs testCanvas_def)
  from valid invalid
    setCanvas_precedence [of "\<lparr>s_width = Some 600, s_height = None\<rparr>" "Some style400x300"
      noMargin None]
    setCanvas_precedence [of "\<lparr>s_width = Some 600, s_height = Some 400\<rparr>" None
      "\<lparr>m_left = Some 200, m_top = Some 300, m_right = Some 400, m_bottom = Some 100\<rparr>"
      "Some testCanvas"]
  show ?thesis
    by (simp add: getElementWidth_def getElementHeight_def style400x300_def defaultCanvasOf_def)
qed

text \<open>
  The claim as stated (the precedence for every size and margin) fails on the input of
  the repository's own test (base_widget.test.tsx, lines 300-329): the explicit size is
  600 by 400, the insets leave no space, and the result has the default canvas' width 500
  and height 300.
\<close>

theorem setCanvas_precedence_counterexample:
  "s_width \<lparr>s_width = Some 600, s_height = Some 400\<rparr> = Some 600
   \<and> c_width (setCanvas \<lparr>s_width = Some 600, s_height = Some 400\<rparr> None
        \<lparr>m_left = Some 200, m_top = Some 300, m_right = Some 400, m_bottom = Some 100\<rparr>
        (Some testCanvas)) = 500
   \<and> c_height (setCanvas \<lparr>s_width = Some 600, s_height = Some 400\<rparr> None
        \<lparr>m_left = Some 200, m_top = Some 300, m_right = Some 400, m_bottom = Some 100\<rparr>
        (Some testCanvas)) = 300"
  by (simp add: setCanvas_defs testCanvas_def)

text \<open>
  C2. A \<open>size\<close> with a negative width or a negative height resolves to the
  default canvas verbatim (the all-zero canvas when there is none): all six fields are
  the default's, and neither the margin nor the container's measurement plays a part.
\<close>

theorem setCanvas_negative_size:
  assumes "(\<exists>v. s_width sz = Some v \<and> v < 0) \<or> (\<exists>v. s_height sz = Some v \<and> v < 0)"
  shows "setCanvas sz style mg (Some dc) = dc
         \<and> setCanvas sz style mg None = DEFAULT_CANVAS"
  using assms
  by (auto simp add: setCanvas_def invalidCandidate_def isNegative_def defaultCanvasOf_def Let_def)

theorem setCanvas_negative_size_witness:
  "((\<exists>v. s_width \<lparr>s_width = Some (- 600), s_height = Some 400\<rparr> = Some v \<and> v < 0)
     \<or> (\<exists>v. s_height \<lparr>s_width = Some (- 600), s_height = Some 400\<rparr> = Some v \<and> v < 0))
   \<and> setCanvas \<lparr>s_width = Some (- 600), s_height = Some 400\<rparr> (Some style400x300)
        \<lparr>m_left = Some 20, m_top = Some 40, m_right = None, m_bottom = None\<rparr>
        (Some testCanvas) = testCanvas
   \<and> setCanvas \<lparr>s_width = Some (- 600), s_height = Some 400\<rparr> (Some style400x300)
        \<lparr>m_left = Some 20, m_top = Some 40, m_right = None, m_bottom = None\<rparr>
        None = DEFAULT_CANVAS"
proof -
  have neg: "(\<exists>v. s_width \<lparr>s_width = Some (- 600), s_height = Some 400\<rparr> = Some v \<and> v < 0)
     \<or> (\<exists>v. s_height \<lparr>s_width = Some (- 600), s_height = Some 400\<rparr> = Some v \<and> v < 0)"
    by simp
  from neg setCanvas_negative_size [OF neg] show ?thesis
    by simp
qed

text \<open>
  C3. When the resolved insets on an axis sum to more than the resolved dimension of that
  axis, the result is the default canvas verbatim; nothing is clamped to zero.
\<close>

theorem setCanvas_margin_exceeds:
  assumes "c = candidate sz style mg defaultCanvas"
    and "c_width c < c_left c + c_right c \<or> c_height c < c_top c + c_bottom c"
  shows "setCanvas sz style mg defaultCanvas =
           (case defaultCanvas of Some dc \<Rightarrow> dc | None \<Rightarrow> DEFAULT_CANVAS)"
  using assms
  by (auto simp add: setCanvas_def invalidCandidate_def defaultCanvasOf_def Let_def)

theorem setCanvas_margin_exceeds_witness:
  "c_height (candidate \<lparr>s_width = Some 600, s_height = None\<rparr> None
       \<lparr>m_left = None, m_top = Some 300, m_right = None, m_bottom = Some 100\<rparr> (Some testCanvas))
     = 300
   \<and> c_top (candidate \<lparr>s_width = Some 600, s_height = None\<rparr> None
       \<lparr>m_left = None, m_top = Some 300, m_right = None, m_bottom = Some 100\<rparr> (Some testCanvas))
     + c_bottom (candidate \<lparr>s_width = Some 600, s_height = None\<rparr> None
       \<lparr>m_left = None, m_top = Some 300, m_right = None, m_bottom = Some 100\<rparr> (Some testCanvas))
     = 400
   \<and> setCanvas \<lparr>s_width = Some 600, s_height = None\<rparr> None
       \<lparr>m_left = None, m_top = Some 300, m_right = None, m_bottom = Some 100\<rparr> (Some testCanvas)
     = testCanvas"
proof -
  let ?c = "candidate \<lparr>s_width = Some 600, s_height = None\<rparr> None
       \<lparr>m_left = None, m_top = Some 300, m_right = None, m_bottom = Some 100\<rparr> (Some testCanvas)"
  have h: "c_height ?c = 300" and t: "c_top ?c + c_bottom ?c = 400"
    by (simp_all add: setCanvas_defs testCanvas_def)
  then have ex: "c_width ?c < c_left ?c + c_right ?c \<or> c_height ?c < c_top ?c + c_bottom ?c"
    by simp
  from h t setCanvas_margin_exceeds [OF refl ex] show ?thesis
    by simp
qed







section \<open>Scrolling\<close>

lemma sub_defined: "sub a b \<noteq> Undefined"
  by (cases a; cases b) simp_all

lemma normalizeLocation_object:
  "a \<noteq> Undefined \<Longrightarrow> b \<noteq> Undefined \<Longrightarrow>
   normalizeLocation s (PlainObject \<lparr>loc_left = a, loc_top = b, loc_x = x, loc_y = y\<rparr>)
     = \<lparr>left = neg a, top = neg b\<rparr>"
  by (simp add: normalizeLocation_def ensureDefined_def isDefined_def)

lemma updateRtlConfig_frame:
  "updateRtlConfig e s = s\<lparr>rtlConfig := rtlConfig (updateRtlConfig e s)\<rparr>"
  by (simp add: updateRtlConfig_def Let_def)

lemma snd_scrollToDistance:
  "snd (scrollToDistance e t s) =
     s\<lparr>world := (if updateManually s then world s else strategy_update e (world s)),
       calls := calls s @ (if updateManually s then [] else [Update]) @ [Location]
                @ (if useNative s then [] else [ApplyScaleRatio, ApplyScaleRatio])\<rparr>"
  by (simp add: scrollToDistance_def updateIfNeed_def update_def Let_def)

lemma fst_scrollToDistance:
  "fst (scrollToDistance e t s) =
     (let w = (if updateManually s then world s else strategy_update e (world s));
          cur0 = strategy_location e w;
          tgt0 = normalizeLocation s t;
          cur = (if useNative s then cur0 else strategy_applyScaleRatio e w cur0);
          tgt = (if useNative s then tgt0 else strategy_applyScaleRatio e w tgt0)
      in \<lparr>left = neg (sub (left cur) (ensureDefined (left tgt) (left cur))),
          top = neg (sub (top cur) (ensureDefined (top tgt) (top cur)))\<rparr>)"
  by (simp add: scrollToDistance_def updateIfNeed_def update_def Let_def
     normalizeLocation_object sub_defined)

lemma scrollTo_unfold:
  "scrollTo e t s =
     (if falsy (top (fst (scrollToDistance e t s))) \<and> falsy (left (fst (scrollToDistance e t s)))
      then snd (scrollToDistance e t s)
      else updateRtlConfig e
             (strategyScrollBy e (fst (scrollToDistance e t s)) (snd (scrollToDistance e t s))))"
  by (simp add: scrollTo_def split_beta)

text \<open>
  C5, as amended. \<open>scrollBy\<close> with a distance that has no nonzero component
  returns at once: the widget is unchanged and the strategy is not called. In
  \<open>scrollTo\<close> the distance is, per field, the current location minus the target
  (the current location where the target's field is undefined), negated by the second
  normalisation. When it has no nonzero component, \<open>scrollTo\<close> returns without
  asking the strategy to scroll and without touching \<open>_rtlConfig\<close>; by then it
  has called the strategy's \<open>update\<close> (unless \<open>updateManually\<close> is set)
  and \<open>location\<close> (and \<open>_applyScaleRatio\<close> twice when the scrolling is
  simulated), which the distance is computed from.
\<close>

theorem scroll_short_circuit:
  "(falsy (top (normalizeLocation s d)) \<and> falsy (left (normalizeLocation s d)) \<longrightarrow>
      scrollBy e d s = s)
   \<and> fst (scrollToDistance e t s) =
       (let w = (if updateManually s then world s else strategy_update e (world s));
            cur0 = strategy_location e w;
            tgt0 = normalizeLocation s t;
            cur = (if useNative s then cur0 else strategy_applyScaleRatio e w cur0);
            tgt = (if useNative s then tgt0 else strategy_applyScaleRatio e w tgt0)
        in \<lparr>left = neg (sub (left cur) (ensureDefined (left tgt) (left cur))),
            top = neg (sub (top cur) (ensureDefined (top tgt) (top cur)))\<rparr>)
   \<and> (falsy (top (fst (scrollToDistance e t s))) \<and> falsy (left (fst (scrollToDistance e t s))) \<longrightarrow>
      scrollTo e t s =
        s\<lparr>world := (if updateManually s then world s else strategy_update e (world s)),
          calls := calls s @ (if updateManually s then [] else [Update]) @ [Location]
                   @ (if useNative s then [] else [ApplyScaleRatio, ApplyScaleRatio])\<rparr>)"
proof -
  have by_zero: "falsy (top (normalizeLocation s d)) \<and> falsy (left (normalizeLocation s d)) \<longrightarrow>
      scrollBy e d s = s"
    by (simp add: scrollBy_def Let_def)
  have to_zero: "falsy (top (fst (scrollToDistance e t s))) \<and> falsy (left (fst (scrollToDistance e t s))) \<longrightarrow>
      scrollTo e t s = snd (scrollToDistance e t s)"
    by (simp add: scrollTo_unfold)
  show ?thesis
    using by_zero to_zero fst_scrollToDistance [of e t s] snd_scrollToDistance [of e t s]
    by presburger
qed

theorem scroll_short_circuit_witness:
  "falsy (top (normalizeLocation widget1 (Scalar (Num 0))))
   \<and> falsy (left (normalizeLocation widget1 (Scalar (Num 0))))
   \<and> scrollBy (simpleEnv True) (Scalar (Num 0)) widget1 = widget1
   \<and> fst (scrollToDistance (simpleEnv True)
        (PlainObject \<lparr>loc_left = Num 50, loc_top = Undefined, loc_x = Undefined, loc_y = Undefined\<rparr>)
        widget1) = \<lparr>left = Num 0, top = Num 0\<rparr>
   \<and> scrollTo (simpleEnv True)
        (PlainObject \<lparr>loc_left = Num 50, loc_top = Undefined, loc_x = Undefined, loc_y = Undefined\<rparr>)
        widget1 = widget1\<lparr>calls := [Update, Location]\<rparr>
   \<and> fst (scrollToDistance (simpleEnv True)
        (PlainObject \<lparr>loc_left = Num 80, loc_top = Undefined, loc_x = Undefined, loc_y = Undefined\<rparr>)
        widget1) = \<lparr>left = Num (- 30), top = Num 0\<rparr>"
proof -
  have z: "falsy (top (normalizeLocation widget1 (Scalar (Num 0))))
     \<and> falsy (left (normalizeLocation widget1 (Scalar (Num 0))))"
    by (simp add: normalizeLocation_def)
  have d: "fst (scrollToDistance (simpleEnv True)
        (PlainObject \<lparr>loc_left = Num 50, loc_top = Undefined, loc_x = Undefined, loc_y = Undefined\<rparr>)
        widget1) = \<lparr>left = Num 0, top = Num 0\<rparr>"
    using scroll_short_circuit [of widget1 _ "simpleEnv True"
        "PlainObject \<lparr>loc_left = Num 50, loc_top = Undefined, loc_x = Undefined, loc_y = Undefined\<rparr>"]
    by (simp add: widget1_def page0_def simpleEnv_def normalizeLocation_def
        ensureDefined_def isDefined_def Let_def)
  have d2: "fst (scrollToDistance (simpleEnv True)
        (PlainObject \<lparr>loc_left = Num 80, loc_top = Undefined, loc_x = Undefined, loc_y = Undefined\<rparr>)
        widget1) = \<lparr>left = Num (- 30), top = Num 0\<rparr>"
    using scroll_short_circuit [of widget1 _ "simpleEnv True"
        "PlainObject \<lparr>loc_left = Num 80, loc_top = Undefined, loc_x = Undefined, loc_y = Undefined\<rparr>"]
    by (simp add: widget1_def page0_def simpleEnv_def normalizeLocation_def
        ensureDefined_def isDefined_def Let_def)
  from z d d2 scroll_short_circuit [of widget1 "Scalar (Num 0)" "simpleEnv True"
        "PlainObject \<lparr>loc_left = Num 50, loc_top = Undefined, loc_x = Undefined, loc_y = Undefined\<rparr>"]
  show ?thesis
    by (simp add: widget1_def simpleEnv_def)
qed

text \<open>
  The claim as stated (no strategy call at all) fails for \<open>scrollTo\<close>: scrolling
  the widget to the offset (50, 70) it already has gives the distance (0, 0), and the
  strategy's \<open>update\<close> and \<open>location\<close> have been called
  (ui.scrollable.js, lines 308-310).
\<close>

theorem scroll_short_circuit_counterexample:
  "calls widget1 = []
   \<and> scrollOffset (simpleEnv True) (world widget1) = \<lparr>left = Num 50, top = Num 70\<rparr>
   \<and> fst (scrollToDistance (simpleEnv True)
        (PlainObject \<lparr>loc_left = Num 50, loc_top = Num 70, loc_x = Undefined, loc_y = Undefined\<rparr>)
        widget1) = \<lparr>left = Num 0, top = Num 0\<rparr>
   \<and> calls (scrollTo (simpleEnv True)
        (PlainObject \<lparr>loc_left = Num 50, loc_top = Num 70, loc_x = Undefined, loc_y = Undefined\<rparr>)
        widget1) = [Update, Location]"
  by (simp add: scrollTo_unfold fst_scrollToDistance snd_scrollToDistance widget1_def page0_def
      simpleEnv_def normalizeLocation_object ensureDefined_def isDefined_def Let_def)

lemmas widget_defs =
  widget1_def page0_def simpleEnv_def

lemmas scroll_eval =
  updateBounds_def getMaxOffset_def scrollTo_unfold fst_scrollToDistance snd_scrollToDistance
  normalizeLocation_def ensureDefined_def isDefined_def strategyScrollBy_def updateRtlConfig_def
  isHorizontalAndRtlEnabled_def getWindowDevicePixelRatio_def VERTICAL_def HORIZONTAL_def Let_def

lemmas run_eval =
  option_set_def storeOption_def optionChanged_def invalidate_def resetInactiveDirection_def
  getInactiveProp_def renderDisabledState_def lock_def unlock_def strategyDisabledChanged_def
  scrollBy_def updateIfNeed_def update_def render_def renderStrategy_def init_def
  updateRtlPosition_def isLocked_def

subsection \<open>What the operations leave alone\<close>

lemma updateRtlConfig_world [simp]: "world (updateRtlConfig e s) = world s"
  and updateRtlConfig_calls [simp]: "calls (updateRtlConfig e s) = calls s"
  and updateRtlConfig_disabled [simp]: "disabled (updateRtlConfig e s) = disabled s"
  and updateRtlConfig_locked [simp]: "locked (updateRtlConfig e s) = locked s"
  and updateRtlConfig_direction [simp]: "direction (updateRtlConfig e s) = direction s"
  and updateRtlConfig_rtlEnabled [simp]: "rtlEnabled (updateRtlConfig e s) = rtlEnabled s"
  by (simp_all add: updateRtlConfig_def Let_def)

lemma updateRtlConfig_skip:
  "cfg_skipUpdating (rtlConfig s) \<Longrightarrow> updateRtlConfig e s = s"
  by (simp add: updateRtlConfig_def)

lemma scrollTo_disabled [simp]: "disabled (scrollTo e t s) = disabled s"
  and scrollTo_locked [simp]: "locked (scrollTo e t s) = locked s"
  and scrollTo_direction [simp]: "direction (scrollTo e t s) = direction s"
  and scrollTo_rtlEnabled [simp]: "rtlEnabled (scrollTo e t s) = rtlEnabled s"
  by (simp_all add: scrollTo_unfold snd_scrollToDistance strategyScrollBy_def)

lemma scrollTo_rtlConfig_skip:
  "cfg_skipUpdating (rtlConfig s) \<Longrightarrow> rtlConfig (scrollTo e t s) = rtlConfig s"
  by (simp add: scrollTo_unfold snd_scrollToDistance strategyScrollBy_def updateRtlConfig_skip)

lemma scrollBy_disabled [simp]: "disabled (scrollBy e d s) = disabled s"
  and scrollBy_locked [simp]: "locked (scrollBy e d s) = locked s"
  by (simp_all add: scrollBy_def Let_def strategyScrollBy_def updateIfNeed_def update_def)

lemma updateRtlPosition_disabled [simp]: "disabled (updateRtlPosition e s) = disabled s"
  and updateRtlPosition_locked [simp]: "locked (updateRtlPosition e s) = locked s"
  by (simp_all add: updateRtlPosition_def Let_def updateBounds_def)

lemma visibilityChanged_disabled [simp]:
    "disabled (visibilityChanged e visible s) = disabled s"
  and visibilityChanged_locked [simp]:
    "locked (visibilityChanged e visible s) = locked s"
  by (simp_all add: visibilityChanged_def Let_def update_def split: option.splits)

lemma resetInactiveDirection_disabled [simp]:
    "disabled (resetInactiveDirection e s) = disabled s"
  and resetInactiveDirection_locked [simp]:
    "locked (resetInactiveDirection e s) = locked s"
  by (simp_all add: resetInactiveDirection_def Let_def split: option.splits)

lemma renderDisabledState_inv:
  "disabled (renderDisabledState s) = disabled s"
  "disabled s \<Longrightarrow> locked (renderDisabledState s)"
  by (simp_all add: renderDisabledState_def lock_def unlock_def)

lemma render_inv:
  "disabled (render e s) \<longrightarrow> locked (render e s)"
  by (simp add: render_def Let_def update_def renderStrategy_def renderDisabledState_def
      lock_def unlock_def)

lemma optionChanged_inv:
  assumes "name \<noteq> ''disabled''"
  shows "disabled (optionChanged e name s) = disabled s"
    and "locked (optionChanged e name s) = locked s"
  using assms by (simp_all add: optionChanged_def invalidate_def)

lemma optionChanged_disabled_inv:
  "disabled (optionChanged e ''disabled'' s) \<longrightarrow> locked (optionChanged e ''disabled'' s)"
  by (simp add: optionChanged_def strategyDisabledChanged_def renderDisabledState_def
      lock_def unlock_def)

lemma storeOption_inv:
  assumes "name \<noteq> ''disabled''"
  shows "disabled (storeOption name v s) = disabled s"
    and "locked (storeOption name v s) = locked s"
  using assms by (simp_all add: storeOption_def split: option_value.splits)

lemma step_inv:
  assumes "disabled s \<longrightarrow> locked s"
  shows "disabled (step e ev s) \<longrightarrow> locked (step e ev s)"
proof (cases ev)
  case (E_option name v)
  show ?thesis
  proof (cases "name = ''disabled''")
    case True
    with E_option show ?thesis
      by (simp add: option_set_def optionChanged_disabled_inv)
  next
    case False
    with E_option assms show ?thesis
      by (simp add: option_set_def optionChanged_inv storeOption_inv)
  qed
next
  case E_lock
  then show ?thesis by (simp add: lock_def)
next
  case E_unlock
  with assms show ?thesis by (simp add: unlock_def)
next
  case (E_scrollBy d)
  with assms show ?thesis by simp
next
  case (E_scrollTo t)
  with assms show ?thesis by simp
next
  case E_dimensionChanged
  with assms show ?thesis by (simp add: dimensionChanged_def update_def)
next
  case (E_visibilityChanged visible)
  with assms show ?thesis by simp
next
  case E_render
  then show ?thesis by (simp add: render_inv)
qed

lemma run_inv:
  "disabled s \<longrightarrow> locked s \<Longrightarrow> disabled (run e evs s) \<longrightarrow> locked (run e evs s)"
proof (induction evs arbitrary: s)
  case Nil
  then show ?case by simp
next
  case (Cons ev evs)
  from Cons.prems have "disabled (step e ev s) \<longrightarrow> locked (step e ev s)"
    by (rule step_inv)
  then show ?case
    using Cons.IH by simp
qed

lemma neg_Num_iff: "neg v = Num n \<longleftrightarrow> v = Num (- n)"
  by (cases v) auto

lemma resetInactiveDirection_vertical:
  "hasWindow e \<Longrightarrow> direction s = VERTICAL \<Longrightarrow>
   resetInactiveDirection e s =
     scrollTo e (PlainObject \<lparr>loc_left = Num 0, loc_top = top (scrollOffset e (world s)),
                              loc_x = Undefined, loc_y = Undefined\<rparr>) s"
  by (simp add: resetInactiveDirection_def getInactiveProp_def Let_def)

lemma resetInactiveDirection_horizontal:
  "hasWindow e \<Longrightarrow> direction s = HORIZONTAL \<Longrightarrow>
   resetInactiveDirection e s =
     scrollTo e (PlainObject \<lparr>loc_left = left (scrollOffset e (world s)), loc_top = Num 0,
                              loc_x = Undefined, loc_y = Undefined\<rparr>) s"
  by (simp add: resetInactiveDirection_def getInactiveProp_def Let_def VERTICAL_def HORIZONTAL_def)

lemma resetInactiveDirection_none:
  "\<not> hasWindow e \<or> (direction s \<noteq> VERTICAL \<and> direction s \<noteq> HORIZONTAL) \<Longrightarrow>
   resetInactiveDirection e s = s"
  by (auto simp add: resetInactiveDirection_def getInactiveProp_def Let_def)

lemma option_set_direction:
  "option_set e ''direction'' (StringValue d) s =
     invalidate (resetInactiveDirection e (s\<lparr>direction := d\<rparr>))"
  by (simp add: option_set_def storeOption_def optionChanged_def)

lemma scrollTo_reaches:
  assumes move: "\<forall>w a b x y. strategy_location e w = \<lparr>left = Num a, top = Num b\<rparr> \<longrightarrow>
        strategy_location e (strategy_scrollBy e \<lparr>left = Num x, top = Num y\<rparr> w)
          = \<lparr>left = Num (a + x), top = Num (b + y)\<rparr>"
    and upd: "\<forall>w. strategy_location e (strategy_update e w) = strategy_location e w"
    and scale: "\<forall>w d. strategy_applyScaleRatio e w d = d"
    and at: "strategy_location e (world s) = \<lparr>left = Num a, top = Num b\<rparr>"
  shows "strategy_location e
           (world (scrollTo e (PlainObject \<lparr>loc_left = Num x, loc_top = Num y,
                                            loc_x = Undefined, loc_y = Undefined\<rparr>) s))
         = \<lparr>left = Num (- x), top = Num (- y)\<rparr>"
proof -
  let ?t = "PlainObject \<lparr>loc_left = Num x, loc_top = Num y, loc_x = Undefined, loc_y = Undefined\<rparr>"
  let ?w = "if updateManually s then world s else strategy_update e (world s)"
  have cur: "strategy_location e ?w = \<lparr>left = Num a, top = Num b\<rparr>"
    using upd at by simp
  have dist: "fst (scrollToDistance e ?t s) = \<lparr>left = Num (- x - a), top = Num (- y - b)\<rparr>"
    by (simp add: fst_scrollToDistance Let_def cur scale normalizeLocation_object
        ensureDefined_def isDefined_def)
  have w: "world (snd (scrollToDistance e ?t s)) = ?w"
    by (simp add: snd_scrollToDistance)
  show ?thesis
  proof (cases "falsy (top (fst (scrollToDistance e ?t s))) \<and> falsy (left (fst (scrollToDistance e ?t s)))")
    case True
    then have "scrollTo e ?t s = snd (scrollToDistance e ?t s)"
      by (simp only: scrollTo_unfold if_True simp_thms)
    moreover from True have "- x = a" and "- y = b"
      by (simp_all add: dist)
    ultimately show ?thesis
      using w cur by auto
  next
    case False
    then have "scrollTo e ?t s =
        updateRtlConfig e (strategyScrollBy e (fst (scrollToDistance e ?t s))
          (snd (scrollToDistance e ?t s)))"
      by (simp only: scrollTo_unfold if_False simp_thms)
    then have "world (scrollTo e ?t s) =
        strategy_scrollBy e \<lparr>left = Num (- x - a), top = Num (- y - b)\<rparr> ?w"
      by (simp add: dist strategyScrollBy_def w)
    with move cur show ?thesis by simp
  qed
qed

lemma direction_reset_reaches:
  assumes win: "hasWindow e"
    and off: "\<forall>w. scrollOffset e w = \<lparr>left = neg (left (strategy_location e w)),
                                  top = neg (top (strategy_location e w))\<rparr>"
    and move: "\<forall>w a b x y. strategy_location e w = \<lparr>left = Num a, top = Num b\<rparr> \<longrightarrow>
            strategy_location e (strategy_scrollBy e \<lparr>left = Num x, top = Num y\<rparr> w)
              = \<lparr>left = Num (a + x), top = Num (b + y)\<rparr>"
    and upd: "\<forall>w. strategy_location e (strategy_update e w) = strategy_location e w"
    and scale: "\<forall>w d. strategy_applyScaleRatio e w d = d"
    and at: "scrollOffset e (world s) = \<lparr>left = Num a, top = Num b\<rparr>"
  shows "scrollOffset e (world (option_set e ''direction'' (StringValue VERTICAL) s))
        = \<lparr>left = Num 0, top = Num b\<rparr>
      \<and> scrollOffset e (world (option_set e ''direction'' (StringValue HORIZONTAL) s))
        = \<lparr>left = Num a, top = Num 0\<rparr>"
proof -
  have "\<lparr>left = neg (left (strategy_location e (world s))),
         top = neg (top (strategy_location e (world s)))\<rparr> = \<lparr>left = Num a, top = Num b\<rparr>"
    using at off by metis
  then have loc: "strategy_location e (world s) = \<lparr>left = Num (- a), top = Num (- b)\<rparr>"
    by (cases "strategy_location e (world s)") (simp add: neg_Num_iff)
  have v: "strategy_location e (world (scrollTo e
          (PlainObject \<lparr>loc_left = Num 0, loc_top = Num b, loc_x = Undefined, loc_y = Undefined\<rparr>)
          (s\<lparr>direction := VERTICAL\<rparr>))) = \<lparr>left = Num (- 0), top = Num (- b)\<rparr>"
    by (rule scrollTo_reaches [OF move upd scale]) (simp add: loc)
  have h: "strategy_location e (world (scrollTo e
          (PlainObject \<lparr>loc_left = Num a, loc_top = Num 0, loc_x = Undefined, loc_y = Undefined\<rparr>)
          (s\<lparr>direction := HORIZONTAL\<rparr>))) = \<lparr>left = Num (- a), top = Num (- 0)\<rparr>"
    by (rule scrollTo_reaches [OF move upd scale]) (simp add: loc)
  have eqv: "option_set e ''direction'' (StringValue VERTICAL) s =
      invalidate (scrollTo e
        (PlainObject \<lparr>loc_left = Num 0, loc_top = Num b, loc_x = Undefined, loc_y = Undefined\<rparr>)
        (s\<lparr>direction := VERTICAL\<rparr>))"
    by (simp add: option_set_direction resetInactiveDirection_vertical win at)
  have eqh: "option_set e ''direction'' (StringValue HORIZONTAL) s =
      invalidate (scrollTo e
        (PlainObject \<lparr>loc_left = Num a, loc_top = Num 0, loc_x = Undefined, loc_y = Undefined\<rparr>)
        (s\<lparr>direction := HORIZONTAL\<rparr>))"
    by (simp add: option_set_direction resetInactiveDirection_horizontal win at)
  have "scrollOffset e (world (option_set e ''direction'' (StringValue VERTICAL) s))
        = \<lparr>left = Num 0, top = Num b\<rparr>"
    using v off by (simp add: eqv invalidate_def)
  moreover have "scrollOffset e (world (option_set e ''direction'' (StringValue HORIZONTAL) s))
        = \<lparr>left = Num a, top = Num 0\<rparr>"
    using h off by (simp add: eqh invalidate_def)
  ultimately show ?thesis by simp
qed

section \<open>Right-to-left scrolling\<close>

text \<open>
  C6. In right-to-left mode with a direction other than vertical,
  \<open>_updateRtlPosition\<close> recomputes the left offset as the maximum left offset
  (\<open>scrollWidth - clientWidth\<close> of the container, read after the bounds are
  updated) minus the tracked \<open>scrollRight\<close>. When that value is at most 0, the
  left offset is 0 and \<open>scrollRight\<close> is reset to the maximum left offset. The
  widget is scrolled to that left offset unless \<open>scrollLeft()\<close> already equals
  it, with \<open>skipUpdating\<close> set meanwhile, so the scroll leaves
  \<open>scrollRight\<close> as recomputed.
\<close>

theorem updateRtlPosition_rtl:
  assumes "isHorizontalAndRtlEnabled s"
  shows
    "(let el = container e (strategy_updateBounds e (world s));
          M = scrollWidth el - clientWidth el;
          sr = cfg_scrollRight (rtlConfig s);
          sl = (if M - sr \<le> 0 then 0 else M - sr);
          s2 = (updateBounds e s)\<lparr>rtlConfig :=
                 (rtlConfig s)\<lparr>cfg_scrollRight := (if M - sr \<le> 0 then M else sr)\<rparr>\<rparr>;
          s4 = scrollTo e
                 (PlainObject \<lparr>loc_left = Num sl, loc_top = Undefined,
                               loc_x = Undefined, loc_y = Undefined\<rparr>)
                 (s2\<lparr>rtlConfig := (rtlConfig s2)\<lparr>cfg_skipUpdating := True\<rparr>\<rparr>)
      in cfg_scrollRight (rtlConfig (updateRtlPosition e s)) = (if M - sr \<le> 0 then M else sr)
         \<and> updateRtlPosition e s =
             (if scrollLeft_of e (world s2) = Num sl then s2
              else s4\<lparr>rtlConfig := (rtlConfig s4)\<lparr>cfg_skipUpdating := False\<rparr>\<rparr>))"
proof -
  let ?s1 = "updateBounds e s"
  have rtl1: "isHorizontalAndRtlEnabled ?s1"
    using assms by (simp add: isHorizontalAndRtlEnabled_def updateBounds_def)
  have cfg1: "rtlConfig ?s1 = rtlConfig s" and w1: "world ?s1 = strategy_updateBounds e (world s)"
    by (simp_all add: updateBounds_def)
  have M: "max_left (getMaxOffset e ?s1) =
      scrollWidth (container e (strategy_updateBounds e (world s)))
      - clientWidth (container e (strategy_updateBounds e (world s)))"
    by (simp add: getMaxOffset_def Let_def w1)
  show ?thesis
    unfolding updateRtlPosition_def Let_def
    using rtl1 by (simp add: M cfg1 scrollTo_rtlConfig_skip)
qed

theorem updateRtlPosition_rtl_witness:
  "isHorizontalAndRtlEnabled resizedRtlWidget
   \<and> cfg_scrollRight (rtlConfig resizedRtlWidget) = 300
   \<and> max_left (getMaxOffset (simpleEnv True) resizedRtlWidget) = 100
   \<and> cfg_scrollRight (rtlConfig (updateRtlPosition (simpleEnv True) resizedRtlWidget)) = 100
   \<and> scrollLeft_of (simpleEnv True) (world (updateRtlPosition (simpleEnv True) resizedRtlWidget))
       = Num 0
   \<and> isHorizontalAndRtlEnabled rtlWidget
   \<and> max_left (getMaxOffset (simpleEnv True) rtlWidget) = 600
   \<and> cfg_scrollRight (rtlConfig (updateRtlPosition (simpleEnv True) rtlWidget)) = 300
   \<and> scrollLeft_of (simpleEnv True) (world (updateRtlPosition (simpleEnv True) rtlWidget))
       = Num 300"
proof -
  have r1: "isHorizontalAndRtlEnabled resizedRtlWidget"
    and r2: "isHorizontalAndRtlEnabled rtlWidget"
    by (simp_all add: isHorizontalAndRtlEnabled_def widget_defs rtlWidget_def resizedRtlWidget_def VERTICAL_def)
  have m: "max_left (getMaxOffset (simpleEnv True) resizedRtlWidget) = 100"
    "max_left (getMaxOffset (simpleEnv True) rtlWidget) = 600"
    "cfg_scrollRight (rtlConfig resizedRtlWidget) = 300"
    by (simp_all add: getMaxOffset_def widget_defs rtlWidget_def resizedRtlWidget_def)
  have a: "cfg_scrollRight (rtlConfig (updateRtlPosition (simpleEnv True) resizedRtlWidget)) = 100
     \<and> scrollLeft_of (simpleEnv True) (world (updateRtlPosition (simpleEnv True) resizedRtlWidget))
       = Num 0"
    using updateRtlPosition_rtl [OF r1, of "simpleEnv True"]
    by (simp add: widget_defs rtlWidget_def resizedRtlWidget_def scroll_eval)
  have b: "cfg_scrollRight (rtlConfig (updateRtlPosition (simpleEnv True) rtlWidget)) = 300
     \<and> scrollLeft_of (simpleEnv True) (world (updateRtlPosition (simpleEnv True) rtlWidget))
       = Num 300"
    using updateRtlPosition_rtl [OF r2, of "simpleEnv True"]
    by (simp add: widget_defs rtlWidget_def resizedRtlWidget_def scroll_eval)
  from r1 r2 m a b show ?thesis
    by simp
qed

text \<open>
  C10. In right-to-left mode with a direction other than vertical,
  \<open>_updateRtlConfig\<close> recomputes \<open>scrollRight\<close> as
  \<open>(scrollWidth - clientWidth) - scrollLeft\<close> only when the container's
  \<open>clientWidth\<close> and the pixel ratio both equal the stored ones and
  \<open>skipUpdating\<close> is not set. When either differs, \<open>scrollRight\<close>
  keeps its value; in both cases the stored \<open>clientWidth\<close> and pixel ratio are
  refreshed. With \<open>skipUpdating\<close> set nothing changes, and nothing but
  \<open>_rtlConfig\<close> ever changes. \<open>scrollBy\<close> and \<open>scrollTo\<close>
  end with this update whenever they ask the strategy to scroll.
\<close>

theorem updateRtlConfig_spec:
  assumes "isHorizontalAndRtlEnabled s"
  shows
    "(let el = container e (world s);
          ratio = getWindowDevicePixelRatio e s;
          cfg = rtlConfig s;
          cfg' = rtlConfig (updateRtlConfig e s);
          unchanged = (cfg_windowPixelRatio cfg = ratio \<and> cfg_clientWidth cfg = clientWidth el);
          by' = normalizeLocation s d;
          to' = scrollToDistance e t s
      in (\<not> cfg_skipUpdating cfg \<and> unchanged \<longrightarrow>
            cfg_scrollRight cfg' = (scrollWidth el - clientWidth el) - scrollLeft el)
         \<and> (\<not> cfg_skipUpdating cfg \<and> \<not> unchanged \<longrightarrow>
            cfg_scrollRight cfg' = cfg_scrollRight cfg)
         \<and> (\<not> cfg_skipUpdating cfg \<longrightarrow>
            cfg_clientWidth cfg' = clientWidth el \<and> cfg_windowPixelRatio cfg' = ratio
            \<and> \<not> cfg_skipUpdating cfg')
         \<and> (cfg_skipUpdating cfg \<longrightarrow> updateRtlConfig e s = s)
         \<and> updateRtlConfig e s = s\<lparr>rtlConfig := cfg'\<rparr>
         \<and> (\<not> (falsy (top by') \<and> falsy (left by')) \<longrightarrow>
            scrollBy e d s = updateRtlConfig e (strategyScrollBy e by' (updateIfNeed e s)))
         \<and> (\<not> (falsy (top (fst to')) \<and> falsy (left (fst to'))) \<longrightarrow>
            scrollTo e t s = updateRtlConfig e (strategyScrollBy e (fst to') (snd to'))))"
  using assms
  by (simp add: updateRtlConfig_def getMaxOffset_def scrollBy_def scrollTo_unfold Let_def)

theorem updateRtlConfig_spec_witness:
  "isHorizontalAndRtlEnabled rtlWidget
   \<and> rtlConfig (scrollBy (simpleEnv True) (Scalar (Num 30)) rtlWidget)
       = \<lparr>cfg_scrollRight = 520, cfg_clientWidth = 400, cfg_windowPixelRatio = 1,
          cfg_skipUpdating = False\<rparr>
   \<and> scrollLeft (container (simpleEnv True)
         (world (scrollBy (simpleEnv True) (Scalar (Num 30)) rtlWidget))) = 80
   \<and> isHorizontalAndRtlEnabled resizedRtlWidget
   \<and> rtlConfig (updateRtlConfig (simpleEnv True) resizedRtlWidget)
       = \<lparr>cfg_scrollRight = 300, cfg_clientWidth = 900, cfg_windowPixelRatio = 1,
          cfg_skipUpdating = False\<rparr>"
proof -
  have r1: "isHorizontalAndRtlEnabled resizedRtlWidget"
    and r2: "isHorizontalAndRtlEnabled rtlWidget"
    by (simp_all add: isHorizontalAndRtlEnabled_def widget_defs rtlWidget_def resizedRtlWidget_def VERTICAL_def)
  have a: "rtlConfig (scrollBy (simpleEnv True) (Scalar (Num 30)) rtlWidget)
       = \<lparr>cfg_scrollRight = 520, cfg_clientWidth = 400, cfg_windowPixelRatio = 1,
          cfg_skipUpdating = False\<rparr>
     \<and> scrollLeft (container (simpleEnv True)
         (world (scrollBy (simpleEnv True) (Scalar (Num 30)) rtlWidget))) = 80"
    using updateRtlConfig_spec [OF r2, of "simpleEnv True" "Scalar (Num 30)"]
    by (simp add: widget_defs rtlWidget_def resizedRtlWidget_def scroll_eval updateIfNeed_def update_def)
  have b: "rtlConfig (updateRtlConfig (simpleEnv True) resizedRtlWidget)
       = \<lparr>cfg_scrollRight = 300, cfg_clientWidth = 900, cfg_windowPixelRatio = 1,
          cfg_skipUpdating = False\<rparr>"
    using updateRtlConfig_spec [OF r1, of "simpleEnv True"]
    by (simp add: widget_defs rtlWidget_def resizedRtlWidget_def scroll_eval)
  from r1 r2 a b show ?thesis
    by simp
qed

section \<open>Changing the direction\<close>

text \<open>
  C7, as amended. When there is a window, setting the direction to vertical scrolls the
  widget to its current offset with \<open>left\<close> replaced by 0, and setting it to
  horizontal to its current offset with \<open>top\<close> replaced by 0, before the
  widget is invalidated. Without a window, or for any other direction, the option is
  stored and the widget invalidated, and no scroll is issued. With a strategy that moves
  by the distance it is asked to scroll by (its location kept by \<open>update\<close>,
  the scale ratio 1, \<open>scrollOffset()\<close> the negated location), the offset on
  the inactive axis is 0 afterwards and the other axis keeps its offset.
\<close>

theorem direction_change_resets_inactive_axis:
  "(hasWindow e \<longrightarrow>
      option_set e ''direction'' (StringValue VERTICAL) s =
        invalidate (scrollTo e
          (PlainObject \<lparr>loc_left = Num 0, loc_top = top (scrollOffset e (world s)),
                        loc_x = Undefined, loc_y = Undefined\<rparr>)
          (s\<lparr>direction := VERTICAL\<rparr>))
      \<and> option_set e ''direction'' (StringValue HORIZONTAL) s =
        invalidate (scrollTo e
          (PlainObject \<lparr>loc_left = left (scrollOffset e (world s)), loc_top = Num 0,
                        loc_x = Undefined, loc_y = Undefined\<rparr>)
          (s\<lparr>direction := HORIZONTAL\<rparr>)))
   \<and> (\<not> hasWindow e \<or> (d \<noteq> VERTICAL \<and> d \<noteq> HORIZONTAL) \<longrightarrow>
      option_set e ''direction'' (StringValue d) s = invalidate (s\<lparr>direction := d\<rparr>))
   \<and> (hasWindow e
      \<and> (\<forall>w. scrollOffset e w = \<lparr>left = neg (left (strategy_location e w)),
                                  top = neg (top (strategy_location e w))\<rparr>)
      \<and> (\<forall>w a b x y. strategy_location e w = \<lparr>left = Num a, top = Num b\<rparr> \<longrightarrow>
            strategy_location e (strategy_scrollBy e \<lparr>left = Num x, top = Num y\<rparr> w)
              = \<lparr>left = Num (a + x), top = Num (b + y)\<rparr>)
      \<and> (\<forall>w. strategy_location e (strategy_update e w) = strategy_location e w)
      \<and> (\<forall>w d. strategy_applyScaleRatio e w d = d)
      \<and> scrollOffset e (world s) = \<lparr>left = Num a, top = Num b\<rparr> \<longrightarrow>
      scrollOffset e (world (option_set e ''direction'' (StringValue VERTICAL) s))
        = \<lparr>left = Num 0, top = Num b\<rparr>
      \<and> scrollOffset e (world (option_set e ''direction'' (StringValue HORIZONTAL) s))
        = \<lparr>left = Num a, top = Num 0\<rparr>)"
proof -
  have p1: "hasWindow e \<longrightarrow>
      option_set e ''direction'' (StringValue VERTICAL) s =
        invalidate (scrollTo e
          (PlainObject \<lparr>loc_left = Num 0, loc_top = top (scrollOffset e (world s)),
                        loc_x = Undefined, loc_y = Undefined\<rparr>)
          (s\<lparr>direction := VERTICAL\<rparr>))
      \<and> option_set e ''direction'' (StringValue HORIZONTAL) s =
        invalidate (scrollTo e
          (PlainObject \<lparr>loc_left = left (scrollOffset e (world s)), loc_top = Num 0,
                        loc_x = Undefined, loc_y = Undefined\<rparr>)
          (s\<lparr>direction := HORIZONTAL\<rparr>))"
    by (simp add: option_set_direction resetInactiveDirection_vertical
        resetInactiveDirection_horizontal)
  have p2: "\<not> hasWindow e \<or> (d \<noteq> VERTICAL \<and> d \<noteq> HORIZONTAL) \<longrightarrow>
      option_set e ''direction'' (StringValue d) s = invalidate (s\<lparr>direction := d\<rparr>)"
    by (simp add: option_set_direction resetInactiveDirection_none)
  have p3: "hasWindow e
      \<and> (\<forall>w. scrollOffset e w = \<lparr>left = neg (left (strategy_location e w)),
                                  top = neg (top (strategy_location e w))\<rparr>)
      \<and> (\<forall>w a b x y. strategy_location e w = \<lparr>left = Num a, top = Num b\<rparr> \<longrightarrow>
            strategy_location e (strategy_scrollBy e \<lparr>left = Num x, top = Num y\<rparr> w)
              = \<lparr>left = Num (a + x), top = Num (b + y)\<rparr>)
      \<and> (\<forall>w. strategy_location e (strategy_update e w) = strategy_location e w)
      \<and> (\<forall>w d. strategy_applyScaleRatio e w d = d)
      \<and> scrollOffset e (world s) = \<lparr>left = Num a, top = Num b\<rparr> \<longrightarrow>
      scrollOffset e (world (option_set e ''direction'' (StringValue VERTICAL) s))
        = \<lparr>left = Num 0, top = Num b\<rparr>
      \<and> scrollOffset e (world (option_set e ''direction'' (StringValue HORIZONTAL) s))
        = \<lparr>left = Num a, top = Num 0\<rparr>"
  proof (rule impI, elim conjE)
    assume "hasWindow e"
      and "\<forall>w. scrollOffset e w = \<lparr>left = neg (left (strategy_location e w)),
                                  top = neg (top (strategy_location e w))\<rparr>"
      and "\<forall>w a b x y. strategy_location e w = \<lparr>left = Num a, top = Num b\<rparr> \<longrightarrow>
            strategy_location e (strategy_scrollBy e \<lparr>left = Num x, top = Num y\<rparr> w)
              = \<lparr>left = Num (a + x), top = Num (b + y)\<rparr>"
      and "\<forall>w. strategy_location e (strategy_update e w) = strategy_location e w"
      and "\<forall>w d. strategy_applyScaleRatio e w d = d"
      and "scrollOffset e (world s) = \<lparr>left = Num a, top = Num b\<rparr>"
    then show "scrollOffset e (world (option_set e ''direction'' (StringValue VERTICAL) s))
        = \<lparr>left = Num 0, top = Num b\<rparr>
      \<and> scrollOffset e (world (option_set e ''direction'' (StringValue HORIZONTAL) s))
        = \<lparr>left = Num a, top = Num 0\<rparr>"
      by (rule direction_reset_reaches)
  qed
  from p1 p2 p3 show ?thesis
    by (intro conjI)
qed

theorem direction_change_resets_inactive_axis_witness:
  "hasWindow (simpleEnv True)
   \<and> scrollOffset (simpleEnv True) (world widget1) = \<lparr>left = Num 50, top = Num 70\<rparr>
   \<and> scrollOffset (simpleEnv True)
         (world (option_set (simpleEnv True) ''direction'' (StringValue ''vertical'') widget1))
       = \<lparr>left = Num 0, top = Num 70\<rparr>
   \<and> scrollOffset (simpleEnv True)
         (world (option_set (simpleEnv True) ''direction'' (StringValue ''horizontal'') widget1))
       = \<lparr>left = Num 50, top = Num 0\<rparr>
   \<and> calls (option_set (simpleEnv True) ''direction'' (StringValue ''vertical'') widget1)
       = [Update, Location, ScrollBy \<lparr>left = Num 50, top = Num 0\<rparr>]
   \<and> option_set (simpleEnv True) ''direction'' (StringValue ''both'') widget1
       = widget1\<lparr>invalidated := True\<rparr>"
proof -
  let ?e = "simpleEnv True"
  have win: "hasWindow ?e"
    by (simp add: simpleEnv_def)
  have off: "\<forall>w. scrollOffset ?e w = \<lparr>left = neg (left (strategy_location ?e w)),
                                  top = neg (top (strategy_location ?e w))\<rparr>"
    by (simp add: simpleEnv_def)
  have move: "\<forall>w a b x y. strategy_location ?e w = \<lparr>left = Num a, top = Num b\<rparr> \<longrightarrow>
            strategy_location ?e (strategy_scrollBy ?e \<lparr>left = Num x, top = Num y\<rparr> w)
              = \<lparr>left = Num (a + x), top = Num (b + y)\<rparr>"
    by (simp add: simpleEnv_def)
  have upd: "\<forall>w. strategy_location ?e (strategy_update ?e w) = strategy_location ?e w"
    by (simp add: simpleEnv_def)
  have scale: "\<forall>w d. strategy_applyScaleRatio ?e w d = d"
    by (simp add: simpleEnv_def)
  have at: "scrollOffset ?e (world widget1) = \<lparr>left = Num 50, top = Num 70\<rparr>"
    by (simp add: widget_defs)
  have both: "\<not> hasWindow ?e \<or> (''both'' \<noteq> VERTICAL \<and> ''both'' \<noteq> HORIZONTAL)"
    by (simp add: VERTICAL_def HORIZONTAL_def)
  note inst = direction_change_resets_inactive_axis [of ?e widget1 "''both''" 50 70]
  from inst win off move upd scale at
  have reach: "scrollOffset ?e (world (option_set ?e ''direction'' (StringValue VERTICAL) widget1))
        = \<lparr>left = Num 0, top = Num 70\<rparr>
      \<and> scrollOffset ?e (world (option_set ?e ''direction'' (StringValue HORIZONTAL) widget1))
        = \<lparr>left = Num 50, top = Num 0\<rparr>"
    by blast
  from inst both have none: "option_set ?e ''direction'' (StringValue ''both'') widget1
      = invalidate (widget1\<lparr>direction := ''both''\<rparr>)"
    by blast
  from inst win have issued: "option_set ?e ''direction'' (StringValue VERTICAL) widget1 =
        invalidate (scrollTo ?e
          (PlainObject \<lparr>loc_left = Num 0, loc_top = top (scrollOffset ?e (world widget1)),
                        loc_x = Undefined, loc_y = Undefined\<rparr>)
          (widget1\<lparr>direction := VERTICAL\<rparr>))"
    by blast
  have c: "calls (option_set ?e ''direction'' (StringValue ''vertical'') widget1)
       = [Update, Location, ScrollBy \<lparr>left = Num 50, top = Num 0\<rparr>]"
    using issued by (simp add: VERTICAL_def invalidate_def widget_defs scroll_eval)
  from win at reach none c show ?thesis
    by (simp add: VERTICAL_def HORIZONTAL_def invalidate_def widget1_def)
qed

text \<open>
  The claim as stated (every change of the direction) fails where there is no window
  (ui.scrollable.js, line 207): the direction becomes vertical, no scroll is issued, and
  the left offset stays 50.
\<close>

theorem direction_change_resets_inactive_axis_counterexample:
  "\<not> hasWindow (simpleEnv False)
   \<and> scrollOffset (simpleEnv False) (world widget1) = \<lparr>left = Num 50, top = Num 70\<rparr>
   \<and> option_set (simpleEnv False) ''direction'' (StringValue ''vertical'') widget1
       = widget1\<lparr>direction := ''vertical'', invalidated := True\<rparr>
   \<and> scrollOffset (simpleEnv False)
         (world (option_set (simpleEnv False) ''direction'' (StringValue ''vertical'') widget1))
       = \<lparr>left = Num 50, top = Num 70\<rparr>
   \<and> calls (option_set (simpleEnv False) ''direction'' (StringValue ''vertical'') widget1) = []"
  by (simp add: run_eval widget_defs VERTICAL_def HORIZONTAL_def)

section \<open>Locking\<close>

text \<open>
  C9. \<open>_renderDisabledState\<close> locks a disabled widget; \<open>_unlock\<close>
  leaves a disabled widget as it is, so an unlock that takes effect finds the widget not
  disabled; and from the first render on, whatever options are set, whoever locks or
  unlocks, however the widget is scrolled, resized or rendered again, a disabled widget
  is locked.
\<close>

theorem locked_while_disabled:
  "(disabled s \<longrightarrow> isLocked (renderDisabledState s))
   \<and> (disabled s \<longrightarrow> unlock s = s)
   \<and> (isLocked s \<and> \<not> isLocked (unlock s) \<longrightarrow> \<not> disabled s)
   \<and> (disabled (run e evs (render e (init s))) \<longrightarrow> isLocked (run e evs (render e (init s))))"
proof -
  have "disabled (run e evs (render e (init s))) \<longrightarrow> locked (run e evs (render e (init s)))"
    by (rule run_inv) (rule render_inv)
  then show ?thesis
    by (simp add: isLocked_def renderDisabledState_def lock_def unlock_def)
qed

theorem locked_while_disabled_witness:
  "disabled disabledWidget
   \<and> isLocked (renderDisabledState disabledWidget)
   \<and> unlock disabledWidget = disabledWidget
   \<and> isLocked (widget1\<lparr>locked := True\<rparr>)
   \<and> \<not> isLocked (unlock (widget1\<lparr>locked := True\<rparr>))
   \<and> \<not> disabled (widget1\<lparr>locked := True\<rparr>)
   \<and> disabled (run (simpleEnv True) sampleEvents (render (simpleEnv True) (init disabledWidget)))
   \<and> isLocked (run (simpleEnv True) sampleEvents (render (simpleEnv True) (init disabledWidget)))"
proof -
  have d: "disabled disabledWidget"
    by (simp add: disabledWidget_def)
  have l: "isLocked (widget1\<lparr>locked := True\<rparr>)
     \<and> \<not> isLocked (unlock (widget1\<lparr>locked := True\<rparr>))"
    by (simp add: isLocked_def unlock_def widget1_def)
  have r: "disabled (run (simpleEnv True) sampleEvents (render (simpleEnv True) (init disabledWidget)))"
    by (simp add: sampleEvents_def disabledWidget_def optionChanged_inv(1) option_set_def
        storeOption_def unlock_def dimensionChanged_def update_def render_def Let_def
        renderDisabledState_def lock_def renderStrategy_def init_def)
  from d l r
    locked_while_disabled [of disabledWidget "simpleEnv True" sampleEvents]
    locked_while_disabled [of "widget1\<lparr>locked := True\<rparr>" "simpleEnv True" "[]"]
  show ?thesis
    by simp
qed

end
